theory Spec2Isabelle
  imports Complex_Main "HOL-Library.Sublist" "HOL-Library.Char_ord" "HOL-Library.List_Lexorder"
begin

section \<open>JavaScript strings\<close>

text \<open>
  Strings are lists of 8-bit characters. The string primitives of the JavaScript runtime
  that the search engine and the indexer call are written out here with the runtime's
  behaviour on ASCII text: \<open>toLowerCase\<close> folds \<open>A\<close>..\<open>Z\<close> only, and the
  class \<open>\s\<close> of a regular expression is tab, line feed, vertical tab, form feed,
  carriage return and space.
\<close>

definition lower_char :: "char \<Rightarrow> char" where
  "lower_char c =
     (if (65::nat) \<le> of_char c \<and> of_char c \<le> (90::nat) then char_of (of_char c + (32::nat)) else c)"

definition toLowerCase :: "string \<Rightarrow> string" where
  "toLowerCase s = map lower_char s"

definition is_space :: "char \<Rightarrow> bool" where
  "is_space c = (of_char c \<in> {9, 10, 11, 12, 13, 32 :: nat})"

definition is_terminal :: "char \<Rightarrow> bool" where
  "is_terminal c = (c = CHR ''.'' \<or> c = CHR ''!'' \<or> c = CHR ''?'')"

text \<open>
  \<open>s.split(/C+/)\<close> for a character class \<open>C\<close>: the pieces between the maximal runs of
  characters of the class. A run at the start or at the end of the string leaves an empty
  piece there, and the empty string splits into one empty piece.
\<close>

function split_runs :: "(char \<Rightarrow> bool) \<Rightarrow> string \<Rightarrow> string \<Rightarrow> string list" where
  "split_runs P cur [] = [cur]"
| "split_runs P cur (c # cs) =
     (if P c then cur # split_runs P [] (dropWhile P cs) else split_runs P (cur @ [c]) cs)"
  by pat_completeness auto
termination
  by (relation "measure (\<lambda>(P, cur, s). length s)")
     (auto simp: length_dropWhile_le less_Suc_eq_le)

definition split_ws :: "string \<Rightarrow> string list" where
  "split_ws s = split_runs is_space [] s"

definition split_sentences :: "string \<Rightarrow> string list" where
  "split_sentences s = split_runs is_terminal [] s"

definition trim :: "string \<Rightarrow> string" where
  "trim s = rev (dropWhile is_space (rev (dropWhile is_space s)))"

text \<open>\<open>s.includes(t)\<close>: \<open>t\<close> occurs in \<open>s\<close> as a contiguous piece.\<close>

definition str_includes :: "string \<Rightarrow> string \<Rightarrow> bool" where
  "str_includes s t = sublist t s"

text \<open>
  \<open>s.indexOf(t, pos)\<close>: the position is clamped to the length of \<open>s\<close>; the first index
  from there at which \<open>t\<close> starts, \<open>None\<close> standing for \<open>-1\<close>. The empty string is found
  at the clamped position itself, also when that is the end of \<open>s\<close>.
\<close>

fun index_scan :: "string \<Rightarrow> string \<Rightarrow> nat \<Rightarrow> nat option" where
  "index_scan [] t k = (if t = [] then Some k else None)"
| "index_scan (c # cs) t k = (if prefix t (c # cs) then Some k else index_scan cs t (Suc k))"

definition indexOf :: "string \<Rightarrow> string \<Rightarrow> nat \<Rightarrow> nat option" where
  "indexOf s t pos = (let p = min pos (length s) in index_scan (drop p s) t p)"

text \<open>
  \<open>s.substring(a, b)\<close>: both arguments are clamped to \<open>[0, length s]\<close> and swapped when
  \<open>a > b\<close>. \<open>s.substring(a)\<close> runs to the end of the string.
\<close>

definition substring :: "string \<Rightarrow> int \<Rightarrow> int \<Rightarrow> string" where
  "substring s a b =
     (let n = int (length s);
          a' = max 0 (min a n);
          b' = max 0 (min b n);
          lo = min a' b';
          hi = max a' b'
      in take (nat (hi - lo)) (drop (nat lo) s))"

definition substring_from :: "string \<Rightarrow> int \<Rightarrow> string" where
  "substring_from s a = substring s a (int (length s))"

text \<open>The decimal digits of a number, as a template literal prints it.\<close>

fun string_of_nat :: "nat \<Rightarrow> string" where
  "string_of_nat n =
     (if n < 10 then [char_of (48 + n)]
      else string_of_nat (n div 10) @ [char_of (48 + n mod 10)])"

declare string_of_nat.simps [simp del]

section \<open>Search results and highlighting\<close>

record TextHighlight =
  hl_start :: nat
  hl_end :: nat
  hl_text :: string

text \<open>
  The inner loop of \<open>generateHighlights\<close> for one query term:
  \<^verbatim>\<open>
  let index = lowerContent.indexOf(term)
  while (index !== -1) {
      highlights.push({start: index, end: index + term.length,
                       text: content.substring(index, index + term.length)})
      index = lowerContent.indexOf(term, index + 1)
  }
  \<close>
  The loop has no bound of its own, so it is a partial function: \<open>None\<close> is the loop
  that never ends.
\<close>

partial_function (option) highlight_loop ::
  "string \<Rightarrow> string \<Rightarrow> string \<Rightarrow> nat option \<Rightarrow> TextHighlight list \<Rightarrow> TextHighlight list option"
where
  "highlight_loop content lowerContent term index highlights =
     (case index of
        None \<Rightarrow> Some highlights
      | Some i \<Rightarrow>
          highlight_loop content lowerContent term
            (indexOf lowerContent term (i + 1))
            (highlights @
              [\<lparr>hl_start = i, hl_end = i + length term,
                hl_text = substring content (int i) (int (i + length term))\<rparr>]))"

declare highlight_loop.simps [code]

fun highlight_terms ::
  "string \<Rightarrow> string \<Rightarrow> string list \<Rightarrow> TextHighlight list \<Rightarrow> TextHighlight list option"
where
  "highlight_terms content lowerContent [] highlights = Some highlights"
| "highlight_terms content lowerContent (term # terms) highlights =
     (case highlight_loop content lowerContent term (indexOf lowerContent term 0) highlights of
        None \<Rightarrow> None
      | Some highlights' \<Rightarrow> highlight_terms content lowerContent terms highlights')"

text \<open>
  \<open>mergeHighlights\<close>: \<open>current\<close> is updated in place, its \<open>end\<close> first and its \<open>text\<close>
  after, so the offset into \<open>next.text\<close> is computed from the new \<open>end\<close>.
\<close>

fun merge_loop :: "TextHighlight \<Rightarrow> TextHighlight list \<Rightarrow> TextHighlight list \<Rightarrow> TextHighlight list" where
  "merge_loop current merged [] = merged @ [current]"
| "merge_loop current merged (next # rest) =
     (if hl_start next \<le> hl_end current then
        (let current1 = current\<lparr>hl_end := max (hl_end current) (hl_end next)\<rparr>;
             current2 = current1\<lparr>hl_text := hl_text current1 @
                          substring_from (hl_text next) (int (hl_end current1) - int (hl_start next))\<rparr>
         in merge_loop current2 merged rest)
      else merge_loop next (merged @ [current]) rest)"

definition mergeHighlights :: "TextHighlight list \<Rightarrow> TextHighlight list" where
  "mergeHighlights highlights =
     (case highlights of [] \<Rightarrow> [] | h # hs \<Rightarrow> merge_loop h [] hs)"

definition generateHighlights :: "string \<Rightarrow> string \<Rightarrow> TextHighlight list option" where
  "generateHighlights query content =
     (let queryTerms = split_ws (toLowerCase query);
          lowerContent = toLowerCase content
      in case highlight_terms content lowerContent queryTerms [] of
           None \<Rightarrow> None
         | Some highlights \<Rightarrow> Some (mergeHighlights (sort_key hl_start highlights)))"

text \<open>
  \<open>generateSemanticHighlights\<close>: the content is cut into sentences at runs of terminal
  punctuation; a sentence in which more than 0.3 of the query terms occur is looked up
  in the content from the current position and becomes a highlight.
\<close>

definition semantic_step ::
  "string \<Rightarrow> string list \<Rightarrow> nat \<times> TextHighlight list \<Rightarrow> string \<Rightarrow> nat \<times> TextHighlight list"
where
  "semantic_step content queryTerms st sentence =
     (let currentPos = fst st;
          highlights = snd st;
          lowerSentence = toLowerCase sentence;
          relevance = real (length (filter (\<lambda>term. str_includes lowerSentence term) queryTerms))
                        / real (length queryTerms)
      in if relevance > 0.3 then
           (case indexOf content sentence currentPos of
              None \<Rightarrow> (currentPos, highlights)
            | Some start \<Rightarrow>
                (start + length sentence,
                 highlights @
                   [\<lparr>hl_start = start, hl_end = start + length sentence, hl_text = trim sentence\<rparr>]))
         else (currentPos, highlights))"

definition generateSemanticHighlights :: "string \<Rightarrow> string \<Rightarrow> TextHighlight list" where
  "generateSemanticHighlights query content =
     (let sentences = split_sentences content;
          queryTerms = split_ws (toLowerCase query)
      in snd (foldl (semantic_step content queryTerms) (0, []) sentences))"

datatype match_type = Exact | Semantic | Fuzzy | Hybrid

record SearchResult =
  result_id :: string
  queryId :: string
  elementId :: string
  relevanceScore :: real
  matchType :: match_type
  matchedContent :: string
  relationships :: "string list"
  highlights :: "TextHighlight list"
  rank :: nat

record SearchFilters =
  fileTypes :: "string list option"
  dateRange :: "(nat \<times> nat) option"
  authors :: "string list option"
  elementTypes :: "string list option"

text \<open>
  The type of \<open>searchType\<close> admits three strings; \<open>search\<close> still has a \<open>default\<close>
  branch that throws, reached by \<open>OtherSearch\<close>.
\<close>

datatype search_type = TextSearch | SemanticSearch | HybridSearch | OtherSearch string

record SearchQuery =
  query_id :: string
  userId :: string
  queryText :: string
  processedQuery :: "string option"
  filters :: "SearchFilters option"
  searchType :: search_type

section \<open>The store\<close>

text \<open>
  \<open>CodeElement\<close> is what the extractor returns for one element, and \<open>CodeIndex\<close>,
  a row of table \<open>code_index\<close>, adds the columns the indexer fills in. The indexer is
  the only writer of the table and gives every column a value, so the columns are not
  nullable here; \<open>dependencies\<close> and \<open>tags\<close> hold the lists that the indexer writes as
  JSON text and the search engine parses back.
\<close>

record CodeElement =
  element_id :: string
  element_type :: string
  element_name :: string
  lineNumber :: nat
  signature :: string
  element_content :: string
  language :: string
  dependencies :: "string list"
  tags :: "string list"

record CodeIndex = CodeElement +
  filePath :: string
  element_hash :: string
  lastModified :: nat
  indexedAt :: nat

record SearchQueryRow =
  stored_query :: SearchQuery
  execution_time :: nat
  stored_timestamp :: nat

record Database =
  code_index :: "CodeIndex list"
  search_queries :: "SearchQueryRow list"
  search_results :: "SearchResult list"

datatype error =
    DatabaseNotInitialized
  | ConstraintViolation string
  | SqlSyntaxError
  | FileNotFound string
  | ProviderUnavailable
  | UnsupportedSearchType string

text \<open>
  \<open>DatabaseManager\<close>: the connection is \<open>null\<close> until \<open>initialize\<close> and after
  \<open>close\<close>, and \<open>getDatabase\<close> throws then.
\<close>

type_synonym DatabaseManager = "Database option"

definition getDatabase :: "DatabaseManager \<Rightarrow> error + Database" where
  "getDatabase dm = (case dm of None \<Rightarrow> Inl DatabaseNotInitialized | Some db \<Rightarrow> Inr db)"

text \<open>
  SQLite's \<open>LIKE\<close>, pattern first: \<open>%\<close> stands for any run of characters, \<open>_\<close> for
  one character, and any other character matches itself up to ASCII case.
\<close>

fun like :: "string \<Rightarrow> string \<Rightarrow> bool" where
  "like [] s = (s = [])"
| "like (p # ps) s =
     (if p = CHR ''%'' then
        like ps s \<or> (case s of [] \<Rightarrow> False | c # cs \<Rightarrow> like (p # ps) cs)
      else
        (case s of
           [] \<Rightarrow> False
         | c # cs \<Rightarrow> (p = CHR ''_'' \<or> lower_char p = lower_char c) \<and> like ps cs))"

section \<open>The search engine\<close>

record SearchEngineConfig =
  config_maxResults :: "nat option"
  config_minScore :: "real option"

text \<open>
  The constructor: \<open>config.maxResults || 50\<close> and \<open>config.minScore || 0.3\<close>. The
  default also replaces a configured zero, which is falsy.
\<close>

definition maxResults :: "SearchEngineConfig \<Rightarrow> nat" where
  "maxResults config =
     (case config_maxResults config of None \<Rightarrow> 50 | Some n \<Rightarrow> if n = 0 then 50 else n)"

definition minScore :: "SearchEngineConfig \<Rightarrow> real" where
  "minScore config =
     (case config_minScore config of None \<Rightarrow> 0.3 | Some m \<Rightarrow> if m = 0 then 0.3 else m)"

definition count_matches :: "string list \<Rightarrow> string \<Rightarrow> nat" where
  "count_matches queryTerms s = length (filter (\<lambda>term. str_includes s term) queryTerms)"

definition calculateTextRelevance :: "string \<Rightarrow> CodeIndex \<Rightarrow> real" where
  "calculateTextRelevance query element =
     (let queryTerms = split_ws (toLowerCase query);
          name = toLowerCase (element_name element);
          content = toLowerCase (element_content element);
          sig = toLowerCase (signature element);
          maxScore = 10;
          score0 =
            (if name = toLowerCase query then maxScore
             else (real (count_matches queryTerms name) / real (length queryTerms)) * maxScore * 0.8);
          score1 = score0
            + (real (count_matches queryTerms content) / real (length queryTerms)) * maxScore * 0.6;
          score2 = score1
            + (real (count_matches queryTerms sig) / real (length queryTerms)) * maxScore * 0.4
      in min (score2 / maxScore) 1)"

text \<open>
  \<open>extractMatchedContent\<close>: windows of 200 characters at a stride of 50, the first
  window with the most query terms wins.
\<close>

function snippet_loop ::
  "string \<Rightarrow> string \<Rightarrow> string list \<Rightarrow> nat \<Rightarrow> nat \<Rightarrow> nat \<Rightarrow> nat"
where
  "snippet_loop content lowerContent queryTerms i bestScore bestStart =
     (if int i < int (length content) - 200 then
        (let lowerSnippet = substring lowerContent (int i) (int (i + 200));
             score = length (filter (\<lambda>term. str_includes lowerSnippet term) queryTerms)
         in if score > bestScore
            then snippet_loop content lowerContent queryTerms (i + 50) score i
            else snippet_loop content lowerContent queryTerms (i + 50) bestScore bestStart)
      else bestStart)"
  by pat_completeness auto
termination
  by (relation "measure (\<lambda>(c, lc, ts, i, bs, bst). length c - i)") auto

declare snippet_loop.simps [simp del]

definition extractMatchedContent :: "string \<Rightarrow> string \<Rightarrow> string" where
  "extractMatchedContent query content =
     (let queryTerms = split_ws (toLowerCase query);
          lowerContent = toLowerCase content;
          bestStart = snippet_loop content lowerContent queryTerms 0 0 0
      in substring content (int bestStart) (min (int bestStart + 200) (int (length content))))"

definition getElementRelationships :: "DatabaseManager \<Rightarrow> string \<Rightarrow> error + string list" where
  "getElementRelationships dm elementId' =
     (case getDatabase dm of
        Inl e \<Rightarrow> Inl e
      | Inr db \<Rightarrow>
          Inr (case find (\<lambda>row. element_id row = elementId') (code_index db) of
                 None \<Rightarrow> []
               | Some row \<Rightarrow> dependencies row))"

text \<open>
  The SQL of \<open>performTextSearch\<close>: one \<open>AND (name LIKE ? OR content LIKE ? OR
  signature LIKE ?)\<close> for each search term with the parameter \<open>%term%\<close>, one
  disjunction of \<open>file_path LIKE '%.ext'\<close> when the query has file types,
  \<open>ORDER BY name LIMIT maxResults * 2\<close>. Rows of equal name stay in table order. A file
  type list that is present and empty leaves \<open>AND ()\<close> in the statement, which SQLite
  rejects.
\<close>

definition term_matches :: "string \<Rightarrow> CodeIndex \<Rightarrow> bool" where
  "term_matches term row =
     (let pattern = CHR ''%'' # term @ [CHR ''%'']
      in like pattern (element_name row) \<or> like pattern (element_content row)
         \<or> like pattern (signature row))"

definition query_fileTypes :: "SearchQuery \<Rightarrow> string list option" where
  "query_fileTypes query = (case filters query of None \<Rightarrow> None | Some f \<Rightarrow> fileTypes f)"

definition fileType_matches :: "string list option \<Rightarrow> CodeIndex \<Rightarrow> bool" where
  "fileType_matches fts row =
     (case fts of
        None \<Rightarrow> True
      | Some exts \<Rightarrow> list_ex (\<lambda>ext. like (CHR ''%'' # CHR ''.'' # ext) (filePath row)) exts)"

definition text_search_rows ::
  "Database \<Rightarrow> nat \<Rightarrow> string list \<Rightarrow> string list option \<Rightarrow> error + CodeIndex list"
where
  "text_search_rows db limit searchTerms fts =
     (if fts = Some [] then Inl SqlSyntaxError
      else Inr (take limit (sort_key element_name
             (filter (\<lambda>row. list_all (\<lambda>term. term_matches term row) searchTerms
                            \<and> fileType_matches fts row)
                (code_index db)))))"

fun text_results ::
  "DatabaseManager \<Rightarrow> real \<Rightarrow> nat \<Rightarrow> SearchQuery \<Rightarrow> CodeIndex list
     \<Rightarrow> (error + SearchResult list) option"
where
  "text_results dm threshold now query [] = Some (Inr [])"
| "text_results dm threshold now query (row # rows) =
     (let score = calculateTextRelevance (queryText query) row
      in if score \<ge> threshold then
           (case generateHighlights (queryText query) (element_content row) of
              None \<Rightarrow> None
            | Some hls \<Rightarrow>
                (case getElementRelationships dm (element_id row) of
                   Inl e \<Rightarrow> Some (Inl e)
                 | Inr rels \<Rightarrow>
                     (case text_results dm threshold now query rows of
                        None \<Rightarrow> None
                      | Some (Inl e) \<Rightarrow> Some (Inl e)
                      | Some (Inr results) \<Rightarrow>
                          Some (Inr
                            (\<lparr>result_id = ''text_'' @ element_id row @ ''_'' @ string_of_nat now,
                              queryId = query_id query,
                              elementId = element_id row,
                              relevanceScore = score,
                              matchType = Exact,
                              matchedContent =
                                extractMatchedContent (queryText query) (element_content row),
                              relationships = rels,
                              highlights = hls,
                              rank = 0\<rparr> # results)))))
         else text_results dm threshold now query rows)"

definition searchTerms :: "string \<Rightarrow> string list" where
  "searchTerms text = filter (\<lambda>term. length term > 0) (split_ws text)"

definition performTextSearch ::
  "SearchEngineConfig \<Rightarrow> DatabaseManager \<Rightarrow> nat \<Rightarrow> SearchQuery
     \<Rightarrow> (error + SearchResult list) option"
where
  "performTextSearch config dm now query =
     (case getDatabase dm of
        Inl e \<Rightarrow> Some (Inl e)
      | Inr db \<Rightarrow>
          (let terms = searchTerms (queryText query)
           in if length terms = 0 then Some (Inr [])
              else
                (case text_search_rows db (maxResults config * 2) terms
                        (query_fileTypes query) of
                   Inl e \<Rightarrow> Some (Inl e)
                 | Inr rows \<Rightarrow> text_results dm (minScore config) now query rows)))"

text \<open>
  The embedding side is outside the engine: \<open>getQueryEmbedding\<close> and
  \<open>searchVectorEmbeddings\<close> are the two calls \<open>performSemanticSearch\<close> makes, and
  either may throw. The repository ships placeholders for both, \<open>mock_provider\<close>.
\<close>

record VectorResult =
  vector_id :: string
  score :: real
  payload_content :: "string option"

record EmbeddingProvider =
  getQueryEmbedding :: "string \<Rightarrow> error + real list"
  searchVectorEmbeddings :: "real list \<Rightarrow> nat \<Rightarrow> error + VectorResult list"

definition mock_provider :: "(nat \<Rightarrow> real) \<Rightarrow> EmbeddingProvider" where
  "mock_provider random =
     \<lparr>getQueryEmbedding = (\<lambda>query. Inr (map (\<lambda>k. random k - 0.5) [0..<1536])),
      searchVectorEmbeddings = (\<lambda>queryEmbedding limit. Inr [])\<rparr>"

definition content_or_empty :: "string option \<Rightarrow> string" where
  "content_or_empty c = (case c of None \<Rightarrow> [] | Some s \<Rightarrow> s)"

fun semantic_results ::
  "DatabaseManager \<Rightarrow> real \<Rightarrow> nat \<Rightarrow> SearchQuery \<Rightarrow> VectorResult list
     \<Rightarrow> error + SearchResult list"
where
  "semantic_results dm threshold now query [] = Inr []"
| "semantic_results dm threshold now query (result # vectorResults) =
     (if score result \<ge> threshold then
        (case getElementRelationships dm (vector_id result) of
           Inl e \<Rightarrow> Inl e
         | Inr rels \<Rightarrow>
             (case semantic_results dm threshold now query vectorResults of
                Inl e \<Rightarrow> Inl e
              | Inr results \<Rightarrow>
                  Inr (\<lparr>result_id = ''semantic_'' @ vector_id result @ ''_'' @ string_of_nat now,
                        queryId = query_id query,
                        elementId = vector_id result,
                        relevanceScore = score result,
                        matchType = Semantic,
                        matchedContent = content_or_empty (payload_content result),
                        relationships = rels,
                        highlights =
                          generateSemanticHighlights (queryText query)
                            (content_or_empty (payload_content result)),
                        rank = 0\<rparr> # results)))
      else semantic_results dm threshold now query vectorResults)"

text \<open>The body of the \<open>try\<close> block of \<open>performSemanticSearch\<close>.\<close>

definition semantic_try ::
  "EmbeddingProvider \<Rightarrow> SearchEngineConfig \<Rightarrow> DatabaseManager \<Rightarrow> nat \<Rightarrow> SearchQuery
     \<Rightarrow> error + SearchResult list"
where
  "semantic_try provider config dm now query =
     (case getQueryEmbedding provider (queryText query) of
        Inl e \<Rightarrow> Inl e
      | Inr queryEmbedding \<Rightarrow>
          (case searchVectorEmbeddings provider queryEmbedding (maxResults config) of
             Inl e \<Rightarrow> Inl e
           | Inr vectorResults \<Rightarrow> semantic_results dm (minScore config) now query vectorResults))"

definition performSemanticSearch ::
  "EmbeddingProvider \<Rightarrow> SearchEngineConfig \<Rightarrow> DatabaseManager \<Rightarrow> nat \<Rightarrow> SearchQuery
     \<Rightarrow> (error + SearchResult list) option"
where
  "performSemanticSearch provider config dm now query =
     (case semantic_try provider config dm now query of
        Inr results \<Rightarrow> Some (Inr results)
      | Inl e \<Rightarrow> performTextSearch config dm now query)"

text \<open>
  The \<open>Map\<close> of \<open>performHybridSearch\<close>, in insertion order: \<open>set\<close> on a key that is
  present replaces the value where it stands, \<open>set\<close> on a new key appends.
\<close>

fun map_set :: "(string \<times> SearchResult) list \<Rightarrow> string \<Rightarrow> SearchResult \<Rightarrow> (string \<times> SearchResult) list" where
  "map_set [] k v = [(k, v)]"
| "map_set ((k', v') # m) k v = (if k' = k then (k, v) # m else (k', v') # map_set m k v)"

definition add_text_result :: "(string \<times> SearchResult) list \<Rightarrow> SearchResult \<Rightarrow> (string \<times> SearchResult) list" where
  "add_text_result combinedResults result = map_set combinedResults (elementId result) result"

definition merge_semantic_result :: "(string \<times> SearchResult) list \<Rightarrow> SearchResult \<Rightarrow> (string \<times> SearchResult) list" where
  "merge_semantic_result combinedResults result =
     (case map_of combinedResults (elementId result) of
        Some existing \<Rightarrow>
          map_set combinedResults (elementId result)
            (existing\<lparr>relevanceScore := max (relevanceScore existing) (relevanceScore result * 1.2),
                      matchType := Hybrid\<rparr>)
      | None \<Rightarrow> map_set combinedResults (elementId result) result)"

definition combine_results :: "SearchResult list \<Rightarrow> SearchResult list \<Rightarrow> SearchResult list" where
  "combine_results textResults semanticResults =
     map snd (foldl merge_semantic_result (foldl add_text_result [] textResults) semanticResults)"

definition performHybridSearch ::
  "EmbeddingProvider \<Rightarrow> SearchEngineConfig \<Rightarrow> DatabaseManager \<Rightarrow> nat \<Rightarrow> SearchQuery
     \<Rightarrow> (error + SearchResult list) option"
where
  "performHybridSearch provider config dm now query =
     (case performTextSearch config dm now query of
        None \<Rightarrow> None
      | Some (Inl e) \<Rightarrow> Some (Inl e)
      | Some (Inr textResults) \<Rightarrow>
          (case performSemanticSearch provider config dm now query of
             None \<Rightarrow> None
           | Some (Inl e) \<Rightarrow> Some (Inl e)
           | Some (Inr semanticResults) \<Rightarrow> Some (Inr (combine_results textResults semanticResults))))"

text \<open>
  \<open>applyFilters\<close>: the callback looks at \<open>dateRange\<close> and \<open>elementTypes\<close>, does
  nothing in either branch and returns \<open>true\<close>.
\<close>

definition applyFilters :: "SearchResult list \<Rightarrow> SearchFilters option \<Rightarrow> SearchResult list" where
  "applyFilters results fs =
     (case fs of
        None \<Rightarrow> results
      | Some f \<Rightarrow>
          filter (\<lambda>result.
                    (if dateRange f \<noteq> None then True else True)
                    \<and> (if elementTypes f \<noteq> None then True else True))
            results)"

text \<open>
  \<open>storeSearchQuery\<close> inserts the query row and then one row for each result, each
  statement on its own. \<open>id\<close> is the primary key of both tables, so an insert of an
  \<open>id\<close> that is present throws, and the rows inserted before it stay.
\<close>

fun insert_results :: "Database \<Rightarrow> string \<Rightarrow> SearchResult list \<Rightarrow> error option \<times> Database" where
  "insert_results db qid [] = (None, db)"
| "insert_results db qid (result # results) =
     (if list_ex (\<lambda>row. result_id row = result_id result) (search_results db)
      then (Some (ConstraintViolation (result_id result)), db)
      else insert_results
             (db\<lparr>search_results := search_results db @ [result\<lparr>queryId := qid\<rparr>]\<rparr>) qid results)"

definition storeSearchQuery ::
  "DatabaseManager \<Rightarrow> SearchQuery \<Rightarrow> SearchResult list \<Rightarrow> nat \<Rightarrow> nat
     \<Rightarrow> error option \<times> DatabaseManager"
where
  "storeSearchQuery dm query results executionTime now =
     (case getDatabase dm of
        Inl e \<Rightarrow> (Some e, dm)
      | Inr db \<Rightarrow>
          (if list_ex (\<lambda>row. query_id (stored_query row) = query_id query) (search_queries db)
           then (Some (ConstraintViolation (query_id query)), dm)
           else
             (case insert_results
                     (db\<lparr>search_queries := search_queries db @
                            [\<lparr>stored_query = query, execution_time = executionTime,
                              stored_timestamp = now div 1000\<rparr>]\<rparr>)
                     (query_id query) results of
                (err, db') \<Rightarrow> (err, Some db'))))"

text \<open>
  \<open>search\<close>. The clock is read as \<open>now\<close> where the result ids are built, and
  \<open>executionTime\<close> is the difference of the two readings around the search.
  \<open>Array.prototype.sort\<close> is stable, as \<open>sort_key\<close> is.
\<close>

record SearchEnv =
  provider :: EmbeddingProvider
  clock_now :: nat
  clock_elapsed :: nat

definition dispatch ::
  "SearchEnv \<Rightarrow> SearchEngineConfig \<Rightarrow> DatabaseManager \<Rightarrow> SearchQuery
     \<Rightarrow> (error + SearchResult list) option"
where
  "dispatch env config dm query =
     (case searchType query of
        TextSearch \<Rightarrow> performTextSearch config dm (clock_now env) query
      | SemanticSearch \<Rightarrow> performSemanticSearch (provider env) config dm (clock_now env) query
      | HybridSearch \<Rightarrow> performHybridSearch (provider env) config dm (clock_now env) query
      | OtherSearch t \<Rightarrow> Some (Inl (UnsupportedSearchType t)))"

definition rank_results :: "SearchEngineConfig \<Rightarrow> SearchQuery \<Rightarrow> SearchResult list \<Rightarrow> SearchResult list" where
  "rank_results config query results =
     take (maxResults config)
       (sort_key (\<lambda>r. - relevanceScore r) (applyFilters results (filters query)))"

definition search ::
  "SearchEnv \<Rightarrow> SearchEngineConfig \<Rightarrow> DatabaseManager \<Rightarrow> SearchQuery
     \<Rightarrow> ((error + SearchResult list) \<times> DatabaseManager) option"
where
  "search env config dm query =
     (case dispatch env config dm query of
        None \<Rightarrow> None
      | Some (Inl e) \<Rightarrow> Some (Inl e, dm)
      | Some (Inr found) \<Rightarrow>
          (let results = rank_results config query found
           in case storeSearchQuery dm query results (clock_elapsed env) (clock_now env) of
                (Some e, dm') \<Rightarrow> Some (Inl e, dm')
              | (None, dm') \<Rightarrow> Some (Inr results, dm')))"

section \<open>The indexer\<close>

text \<open>
  \<open>path.extname\<close> of the runtime, for POSIX paths: the extension of the last path
  component, trailing slashes aside, from its last dot; empty when the component has no
  dot, starts at its last dot, or is \<open>..\<close>.
\<close>

definition last_component :: "string \<Rightarrow> string" where
  "last_component p =
     rev (takeWhile (\<lambda>c. c \<noteq> CHR ''/'') (dropWhile (\<lambda>c. c = CHR ''/'') (rev p)))"

definition extname :: "string \<Rightarrow> string" where
  "extname p =
     (let comp = last_component p;
          ext_rev = takeWhile (\<lambda>c. c \<noteq> CHR ''.'') (rev comp);
          pre = take (length comp - length ext_rev - 1) comp
      in if CHR ''.'' \<notin> set comp then []
         else if pre = [] then []
         else if ext_rev = [] \<and> pre = ''.'' then []
         else CHR ''.'' # rev ext_rev)"

definition supportedExtensions :: "string list" where
  "supportedExtensions =
     [''.ts'', ''.tsx'', ''.js'', ''.jsx'', ''.py'', ''.java'', ''.cpp'', ''.c'', ''.h'',
      ''.hpp'', ''.go'', ''.rs'', ''.php'', ''.rb'', ''.swift'', ''.kt'']"

record SourceFile =
  file_content :: string
  mtime :: nat

text \<open>
  What \<open>indexFile\<close> reads from outside: the file system (\<open>None\<close> where
  \<open>readFileSync\<close> throws), SHA-256 as \<open>getFileHash\<close>, the clock, and the extractor
  \<open>extractCodeElements\<close>, a function of path, content and extension alone.
\<close>

record IndexEnv =
  file_system :: "string \<Rightarrow> SourceFile option"
  getFileHash :: "string \<Rightarrow> string"
  extractCodeElements :: "string \<Rightarrow> string \<Rightarrow> string \<Rightarrow> CodeElement list"
  index_now :: nat
  index_elapsed :: nat

definition getExistingIndex :: "DatabaseManager \<Rightarrow> string \<Rightarrow> error + string option" where
  "getExistingIndex dm path =
     (case getDatabase dm of
        Inl e \<Rightarrow> Inl e
      | Inr db \<Rightarrow>
          Inr (case find (\<lambda>row. filePath row = path) (code_index db) of
                 None \<Rightarrow> None
               | Some row \<Rightarrow> Some (element_hash row)))"

definition removeFileIndex :: "DatabaseManager \<Rightarrow> string \<Rightarrow> error + DatabaseManager" where
  "removeFileIndex dm path =
     (case getDatabase dm of
        Inl e \<Rightarrow> Inl e
      | Inr db \<Rightarrow>
          Inr (Some (db\<lparr>code_index := filter (\<lambda>row. filePath row \<noteq> path) (code_index db)\<rparr>)))"

text \<open>
  \<open>storeCodeElement\<close> is one \<open>INSERT\<close>, committed on its own. Column \<open>id\<close> is the
  primary key of \<open>code_index\<close>: the insert throws when the id is in the table.
\<close>

definition storeCodeElement :: "DatabaseManager \<Rightarrow> CodeIndex \<Rightarrow> error + DatabaseManager" where
  "storeCodeElement dm element =
     (case getDatabase dm of
        Inl e \<Rightarrow> Inl e
      | Inr db \<Rightarrow>
          (if list_ex (\<lambda>row. element_id row = element_id element) (code_index db)
           then Inl (ConstraintViolation (element_id element))
           else Inr (Some (db\<lparr>code_index := code_index db @ [element]\<rparr>))))"

definition make_row :: "string \<Rightarrow> string \<Rightarrow> nat \<Rightarrow> nat \<Rightarrow> CodeElement \<Rightarrow> CodeIndex" where
  "make_row path hash modified indexed element =
     \<lparr>element_id = element_id element,
      element_type = element_type element,
      element_name = element_name element,
      lineNumber = lineNumber element,
      signature = signature element,
      element_content = element_content element,
      language = language element,
      dependencies = dependencies element,
      tags = tags element,
      filePath = path,
      element_hash = hash,
      lastModified = modified,
      indexedAt = indexed\<rparr>"

fun store_elements ::
  "DatabaseManager \<Rightarrow> CodeIndex list \<Rightarrow> nat \<Rightarrow> (error + nat) \<times> DatabaseManager"
where
  "store_elements dm [] indexedCount = (Inr indexedCount, dm)"
| "store_elements dm (element # elements) indexedCount =
     (case storeCodeElement dm element of
        Inl e \<Rightarrow> (Inl e, dm)
      | Inr dm' \<Rightarrow> store_elements dm' elements (indexedCount + 1))"

definition indexFile :: "IndexEnv \<Rightarrow> DatabaseManager \<Rightarrow> string \<Rightarrow> (error + nat) \<times> DatabaseManager" where
  "indexFile env dm path =
     (let extension = toLowerCase (extname path)
      in if extension \<notin> set supportedExtensions then (Inr 0, dm)
         else
           (case file_system env path of
              None \<Rightarrow> (Inl (FileNotFound path), dm)
            | Some file \<Rightarrow>
                (let content = file_content file;
                     hash = getFileHash env content;
                     modified = mtime file div 1000
                 in case getExistingIndex dm path of
                      Inl e \<Rightarrow> (Inl e, dm)
                    | Inr existingIndex \<Rightarrow>
                        (if existingIndex = Some hash then (Inr 0, dm)
                         else
                           (case removeFileIndex dm path of
                              Inl e \<Rightarrow> (Inl e, dm)
                            | Inr dm1 \<Rightarrow>
                                store_elements dm1
                                  (map (make_row path hash modified (index_now env div 1000))
                                     (extractCodeElements env path content extension))
                                  0)))))"

definition removeFile :: "DatabaseManager \<Rightarrow> string \<Rightarrow> error + DatabaseManager" where
  "removeFile dm path = removeFileIndex dm path"

text \<open>\<open>IndexingService.indexFile\<close> turns the outcome into an \<open>IndexingResult\<close>.\<close>

record IndexingResult =
  success :: bool
  elementsIndexed :: nat
  errors :: "error list"
  duration :: nat

definition service_indexFile :: "IndexEnv \<Rightarrow> DatabaseManager \<Rightarrow> string \<Rightarrow> IndexingResult \<times> DatabaseManager" where
  "service_indexFile env dm path =
     (case indexFile env dm path of
        (Inr n, dm') \<Rightarrow>
          (\<lparr>success = True, elementsIndexed = n, errors = [], duration = index_elapsed env\<rparr>, dm')
      | (Inl e, dm') \<Rightarrow>
          (\<lparr>success = False, elementsIndexed = 0, errors = [e], duration = index_elapsed env\<rparr>, dm'))"

text \<open>The hash that \<open>getExistingIndex\<close> finds for a path in an open database.\<close>

definition stored_hash :: "Database \<Rightarrow> string \<Rightarrow> string option" where
  "stored_hash db path =
     map_option element_hash (find (\<lambda>row. filePath row = path) (code_index db))"

section \<open>Fixtures\<close>

text \<open>
  Two versions of a TypeScript file \<open>/src/math.ts\<close>. \<open>fixture_extract\<close> gives, for
  each of the two sources, the elements that \<open>extractTypeScriptElements\<close> finds in it
  (one \<open>function\<close> match per declaration, the signature the trimmed first line, the
  content the balanced braces, no imports, no comment tags), and \<open>fixture_hash\<close>
  stands for SHA-256 on them.
\<close>

definition old_source :: string where
  "old_source = ''function sub(a,b) { return a-b }''"

definition new_source :: string where
  "new_source =
     ''function add(a,b) { return a+b }\<newline>function sum(xs) {\<newline>  return add(xs)\<newline>}''"

definition sub_element :: CodeElement where
  "sub_element =
     \<lparr>element_id = ''function:sub:1'', element_type = ''function'', element_name = ''sub'',
      lineNumber = 1, signature = ''function sub(a,b) { return a-b }'',
      element_content = ''{ return a-b }'', language = ''typescript'',
      dependencies = [], tags = []\<rparr>"

definition add_element :: CodeElement where
  "add_element =
     \<lparr>element_id = ''function:add:1'', element_type = ''function'', element_name = ''add'',
      lineNumber = 1, signature = ''function add(a,b) { return a+b }'',
      element_content = ''{ return a+b }'', language = ''typescript'',
      dependencies = [], tags = []\<rparr>"

definition sum_element :: CodeElement where
  "sum_element =
     \<lparr>element_id = ''function:sum:2'', element_type = ''function'', element_name = ''sum'',
      lineNumber = 2, signature = ''function sum(xs) {'',
      element_content = ''{\<newline>  return add(xs)\<newline>}'', language = ''typescript'',
      dependencies = [], tags = []\<rparr>"

definition fixture_extract :: "string \<Rightarrow> string \<Rightarrow> string \<Rightarrow> CodeElement list" where
  "fixture_extract path content extension =
     (if content = new_source then [add_element, sum_element]
      else if content = old_source then [sub_element]
      else [])"

definition fixture_hash :: "string \<Rightarrow> string" where
  "fixture_hash content =
     (if content = new_source then ''h-new''
      else if content = old_source then ''h-old''
      else content)"

definition env_new :: IndexEnv where
  "env_new =
     \<lparr>file_system =
        (\<lambda>path. if path = ''/src/math.ts''
                then Some \<lparr>file_content = new_source, mtime = 5000\<rparr> else None),
      getFileHash = fixture_hash,
      extractCodeElements = fixture_extract,
      index_now = 7000,
      index_elapsed = 1\<rparr>"

text \<open>The file touched later: a new modification time, the same content.\<close>

definition env_touched :: IndexEnv where
  "env_touched =
     \<lparr>file_system =
        (\<lambda>path. if path = ''/src/math.ts''
                then Some \<lparr>file_content = new_source, mtime = 6000\<rparr> else None),
      getFileHash = fixture_hash,
      extractCodeElements = fixture_extract,
      index_now = 8000,
      index_elapsed = 1\<rparr>"


definition empty_db :: Database where
  "empty_db = \<lparr>code_index = [], search_queries = [], search_results = []\<rparr>"

text \<open>
  \<open>db_math\<close> is the store after \<open>env_new\<close> has indexed \<open>/src/math.ts\<close> into
  \<open>empty_db\<close>. \<open>db_old\<close> holds the old version of the file and a row of another
  file, \<open>/src/util.ts\<close>, that declares a function \<open>sum\<close> on its line 2, so its id is
  \<open>function:sum:2\<close> as well.
\<close>

definition db_math :: Database where
  "db_math =
     \<lparr>code_index = map (make_row ''/src/math.ts'' ''h-new'' 5 7) [add_element, sum_element],
      search_queries = [], search_results = []\<rparr>"

definition util_row :: CodeIndex where
  "util_row =
     make_row ''/src/util.ts'' ''h-util'' 1 2
       \<lparr>element_id = ''function:sum:2'', element_type = ''function'', element_name = ''sum'',
        lineNumber = 2, signature = ''function sum(a,b) { return a+b }'',
        element_content = ''{ return a+b }'', language = ''typescript'',
        dependencies = [], tags = []\<rparr>"

definition db_old :: Database where
  "db_old =
     \<lparr>code_index = [make_row ''/src/math.ts'' ''h-old'' 1 2 sub_element, util_row],
      search_queries = [], search_results = []\<rparr>"

definition default_config :: SearchEngineConfig where
  "default_config = \<lparr>config_maxResults = None, config_minScore = None\<rparr>"

definition query_add :: SearchQuery where
  "query_add =
     \<lparr>query_id = ''q1'', userId = ''u1'', queryText = ''add'', processedQuery = None,
      filters = None, searchType = TextSearch\<rparr>"

definition class_filter :: SearchFilters where
  "class_filter =
     \<lparr>fileTypes = None, dateRange = None, authors = None, elementTypes = Some [''class'']\<rparr>"

definition env_mock :: SearchEnv where
  "env_mock = \<lparr>provider = mock_provider (\<lambda>k. 0), clock_now = 1700, clock_elapsed = 3\<rparr>"



text \<open>The two results of the lexical search for \<open>add\<close> in \<open>db_math\<close>.\<close>

definition add_result :: SearchResult where
  "add_result =
     \<lparr>result_id = ''text_function:add:1_1700'', queryId = ''q1'', elementId = ''function:add:1'',
      relevanceScore = 1, matchType = Exact, matchedContent = ''{ return a+b }'',
      relationships = [], highlights = [], rank = 0\<rparr>"

definition sum_result :: SearchResult where
  "sum_result =
     \<lparr>result_id = ''text_function:sum:2_1700'', queryId = ''q1'', elementId = ''function:sum:2'',
      relevanceScore = 3 / 5, matchType = Exact,
      matchedContent = ''{\<newline>  return add(xs)\<newline>}'',
      relationships = [],
      highlights = [\<lparr>hl_start = 11, hl_end = 14, hl_text = ''add''\<rparr>], rank = 0\<rparr>"

section \<open>Scores of the results\<close>

text \<open>
  Each strategy keeps a candidate only when its score reaches the threshold, and the
  hybrid merge only raises scores. The list that \<open>search\<close> returns is in descending
  order of score.
\<close>

lemma text_results_scores:
  "text_results dm threshold now query rows = Some (Inr results) \<Longrightarrow> r \<in> set results
     \<Longrightarrow> threshold \<le> relevanceScore r"
proof (induction rows arbitrary: results)
  case Nil
  then show ?case by simp
next
  case (Cons row rows)
  show ?case
  proof (cases "calculateTextRelevance (queryText query) row \<ge> threshold")
    case False
    with Cons show ?thesis by (simp add: Let_def)
  next
    case True
    with Cons.prems(1) obtain hls rels rest where
      rest: "text_results dm threshold now query rows = Some (Inr rest)" and
      res: "results = \<lparr>result_id = ''text_'' @ element_id row @ ''_'' @ string_of_nat now,
                              queryId = query_id query,
                              elementId = element_id row,
                              relevanceScore = calculateTextRelevance (queryText query) row,
                              matchType = Exact,
                              matchedContent =
                                extractMatchedContent (queryText query) (element_content row),
                              relationships = rels,
                              highlights = hls,
                              rank = 0\<rparr> # rest"
      by (auto simp: Let_def split: option.splits sum.splits)
    from Cons.prems(2) res consider "relevanceScore r = calculateTextRelevance (queryText query) row" | "r \<in> set rest"
      by auto
    then show ?thesis
    proof cases
      case 1
      with True show ?thesis by simp
    next
      case 2
      with Cons.IH[OF rest] show ?thesis by simp
    qed
  qed
qed

lemma performTextSearch_scores:
  "performTextSearch config dm now query = Some (Inr results) \<Longrightarrow> r \<in> set results
     \<Longrightarrow> minScore config \<le> relevanceScore r"
  unfolding performTextSearch_def
  by (auto simp: Let_def split: sum.splits if_splits dest: text_results_scores)

lemma semantic_results_scores:
  "semantic_results dm threshold now query vrs = Inr results \<Longrightarrow> r \<in> set results
     \<Longrightarrow> threshold \<le> relevanceScore r"
  by (induction vrs arbitrary: results) (auto split: if_splits sum.splits)

lemma performSemanticSearch_scores:
  "performSemanticSearch p config dm now query = Some (Inr results) \<Longrightarrow> r \<in> set results
     \<Longrightarrow> minScore config \<le> relevanceScore r"
  unfolding performSemanticSearch_def semantic_try_def
  by (auto split: sum.splits dest: performTextSearch_scores semantic_results_scores)

lemma map_set_pred:
  "P v \<Longrightarrow> \<forall>x \<in> set m. P (snd x) \<Longrightarrow> \<forall>x \<in> set (map_set m k v). P (snd x)"
  by (induction m k v rule: map_set.induct) auto

lemma add_text_all:
  "\<forall>x \<in> set m. t \<le> relevanceScore (snd x) \<Longrightarrow> \<forall>v \<in> set rs. t \<le> relevanceScore v
     \<Longrightarrow> \<forall>x \<in> set (foldl add_text_result m rs). t \<le> relevanceScore (snd x)"
proof (induction rs arbitrary: m)
  case Nil then show ?case by simp
next
  case (Cons a rs)
  have "t \<le> relevanceScore a" using Cons.prems(2) by simp
  then have "\<forall>x \<in> set (add_text_result m a). t \<le> relevanceScore (snd x)"
    unfolding add_text_result_def
    using map_set_pred[where P = "\<lambda>v. t \<le> relevanceScore v"] Cons.prems(1) by blast
  with Cons show ?case by simp
qed

lemma merge_semantic_all:
  "\<forall>x \<in> set m. t \<le> relevanceScore (snd x) \<Longrightarrow> \<forall>v \<in> set rs. t \<le> relevanceScore v
     \<Longrightarrow> \<forall>x \<in> set (foldl merge_semantic_result m rs). t \<le> relevanceScore (snd x)"
proof (induction rs arbitrary: m)
  case Nil then show ?case by simp
next
  case (Cons a rs)
  have a: "t \<le> relevanceScore a" using Cons.prems(2) by simp
  have "\<forall>x \<in> set (merge_semantic_result m a). t \<le> relevanceScore (snd x)"
  proof (cases "map_of m (elementId a)")
    case None
    then show ?thesis
      unfolding merge_semantic_result_def
      using map_set_pred[where P = "\<lambda>v. t \<le> relevanceScore v"] a Cons.prems(1) by simp
  next
    case (Some ex)
    let ?ex' = "ex\<lparr>relevanceScore := max (relevanceScore ex) (relevanceScore a * 1.2), matchType := Hybrid\<rparr>"
    from Some have "(elementId a, ex) \<in> set m" by (rule map_of_SomeD)
    with Cons.prems(1) have "t \<le> relevanceScore ex" by fastforce
    then have "t \<le> relevanceScore ?ex'" by simp
    then have "\<forall>x \<in> set (map_set m (elementId a) ?ex'). t \<le> relevanceScore (snd x)"
      using map_set_pred[where P = "\<lambda>v. t \<le> relevanceScore v"] Cons.prems(1) by blast
    then show ?thesis
      unfolding merge_semantic_result_def using Some by simp
  qed
  with Cons show ?case by simp
qed

lemma combine_results_scores:
  assumes "\<forall>v \<in> set ts. t \<le> relevanceScore v" and "\<forall>v \<in> set ss. t \<le> relevanceScore v"
    and "r \<in> set (combine_results ts ss)"
  shows "t \<le> relevanceScore r"
proof -
  have "\<forall>x \<in> set (foldl add_text_result [] ts). t \<le> relevanceScore (snd x)"
    using add_text_all[of "[]" t ts] assms(1) by simp
  then have "\<forall>x \<in> set (foldl merge_semantic_result (foldl add_text_result [] ts) ss).
               t \<le> relevanceScore (snd x)"
    using merge_semantic_all assms(2) by blast
  with assms(3) show ?thesis unfolding combine_results_def by auto
qed

lemma performHybridSearch_scores:
  assumes "performHybridSearch p config dm now query = Some (Inr results)" and "r \<in> set results"
  shows "minScore config \<le> relevanceScore r"
proof -
  from assms(1) obtain ts ss where
    t: "performTextSearch config dm now query = Some (Inr ts)" and
    s: "performSemanticSearch p config dm now query = Some (Inr ss)" and
    c: "results = combine_results ts ss"
    unfolding performHybridSearch_def by (auto split: option.splits sum.splits)
  have "\<forall>v \<in> set ts. minScore config \<le> relevanceScore v"
    using performTextSearch_scores[OF t] by blast
  moreover have "\<forall>v \<in> set ss. minScore config \<le> relevanceScore v"
    using performSemanticSearch_scores[OF s] by blast
  ultimately show ?thesis using combine_results_scores assms(2) c by blast
qed

lemma dispatch_scores:
  "dispatch env config dm query = Some (Inr results) \<Longrightarrow> r \<in> set results
     \<Longrightarrow> minScore config \<le> relevanceScore r"
  unfolding dispatch_def
  by (auto split: search_type.splits
      dest: performTextSearch_scores performSemanticSearch_scores performHybridSearch_scores)

lemma applyFilters_subset: "set (applyFilters rs fs) \<subseteq> set rs"
  by (auto simp: applyFilters_def split: option.splits)

lemma rank_results_subset: "set (rank_results config query rs) \<subseteq> set rs"
  unfolding rank_results_def using applyFilters_subset[of rs "filters query"]
  by (auto dest!: in_set_takeD)

lemma search_results_from_dispatch:
  "map_option fst (search env config dm query) = Some (Inr results) \<Longrightarrow>
     \<exists>found. dispatch env config dm query = Some (Inr found) \<and> results = rank_results config query found"
  unfolding search_def
  by (auto simp: Let_def split: option.splits sum.splits prod.splits)

lemma search_sorted_by_score:
  assumes "map_option fst (search env config dm query) = Some (Inr results)"
  shows "sorted (map (\<lambda>r. - relevanceScore r) results)"
proof -
  from search_results_from_dispatch[OF assms] obtain found where
    "results = rank_results config query found" by blast
  then have "map (\<lambda>r. - relevanceScore r) results
               = take (maxResults config)
                   (map (\<lambda>r. - relevanceScore r)
                      (sort_key (\<lambda>r. - relevanceScore r) (applyFilters found (filters query))))"
    by (simp add: rank_results_def take_map)
  then show ?thesis by (simp add: sorted_wrt_take)
qed

section \<open>What a search depends on\<close>

text \<open>
  The strategies read the text, the id and the file types of a query and nothing else
  of it; whether the audit rows can be written depends on the ids alone.
\<close>

lemma insert_results_error:
  "search_results db1 = search_results db2 \<Longrightarrow>
     fst (insert_results db1 qid rs) = fst (insert_results db2 qid rs)"
  by (induction rs arbitrary: db1 db2) auto

lemma storeSearchQuery_error:
  assumes "query_id q1 = query_id q2"
  shows "fst (storeSearchQuery dm q1 rs t n) = fst (storeSearchQuery dm q2 rs t n)"
proof (cases dm)
  case None
  then show ?thesis by (simp add: storeSearchQuery_def getDatabase_def)
next
  case (Some db)
  let ?d1 = "db\<lparr>search_queries := search_queries db @
               [\<lparr>stored_query = q1, execution_time = t, stored_timestamp = n div 1000\<rparr>]\<rparr>"
  let ?d2 = "db\<lparr>search_queries := search_queries db @
               [\<lparr>stored_query = q2, execution_time = t, stored_timestamp = n div 1000\<rparr>]\<rparr>"
  have "fst (insert_results ?d1 (query_id q2) rs) = fst (insert_results ?d2 (query_id q2) rs)"
    by (rule insert_results_error) simp
  then show ?thesis
    using Some assms by (simp add: storeSearchQuery_def getDatabase_def case_prod_beta)
qed

lemma text_results_cong:
  "queryText q1 = queryText q2 \<Longrightarrow> query_id q1 = query_id q2 \<Longrightarrow>
     text_results dm th now q1 rows = text_results dm th now q2 rows"
  by (induction rows) (auto simp: Let_def split: option.splits sum.splits)


lemma performTextSearch_cong_filters:
  "queryText q1 = queryText q2 \<Longrightarrow> query_id q1 = query_id q2
     \<Longrightarrow> query_fileTypes q1 = query_fileTypes q2 \<Longrightarrow>
     performTextSearch config dm now q1 = performTextSearch config dm now q2"
  using text_results_cong[of q1 q2]
  by (auto simp: performTextSearch_def Let_def split: sum.splits)

lemma semantic_results_cong:
  "queryText q1 = queryText q2 \<Longrightarrow> query_id q1 = query_id q2 \<Longrightarrow>
     semantic_results dm th now q1 vrs = semantic_results dm th now q2 vrs"
  by (induction vrs) (auto split: sum.splits)

lemma search_outcome_cong:
  assumes "dispatch env config dm q1 = dispatch env config dm q2"
    and "query_id q1 = query_id q2"
    and "\<And>found. rank_results config q1 found = rank_results config q2 found"
  shows "map_option fst (search env config dm q1) = map_option fst (search env config dm q2)"
proof (cases "dispatch env config dm q2")
  case None
  then show ?thesis using assms(1) by (simp add: search_def)
next
  case (Some out)
  show ?thesis
  proof (cases out)
    case (Inl e)
    then show ?thesis using Some assms(1) by (simp add: search_def)
  next
    case (Inr found)
    have "fst (storeSearchQuery dm q1 (rank_results config q2 found) (clock_elapsed env) (clock_now env))
        = fst (storeSearchQuery dm q2 (rank_results config q2 found) (clock_elapsed env) (clock_now env))"
      using assms(2) by (rule storeSearchQuery_error)
    then show ?thesis
      using Some Inr assms(1,3)
      by (auto simp: search_def Let_def split: prod.splits option.splits)
  qed
qed

section \<open>When the highlight loop ends\<close>

text \<open>
  For a non-empty term every round of the loop finds a later position inside the
  content, so the loop ends. The empty term, which a query with white space at either
  end has, is found again at the end of the content on every round. A query none of
  whose terms is empty is therefore always answered.
\<close>

lemma index_scan_bounds:
  "t \<noteq> [] \<Longrightarrow> index_scan s t k = Some j \<Longrightarrow> k \<le> j \<and> j < k + length s"
  by (induction s arbitrary: k) (fastforce split: if_splits)+

lemma indexOf_bounds:
  assumes "t \<noteq> []" and "indexOf s t pos = Some j"
  shows "pos \<le> j \<and> j < length s"
proof -
  let ?p = "min pos (length s)"
  from assms have b: "?p \<le> j \<and> j < ?p + length (drop ?p s)"
    using index_scan_bounds[of t "drop ?p s" ?p j] by (simp add: indexOf_def Let_def)
  then have "j < length s" by auto
  with b show ?thesis by auto
qed

lemma highlight_loop_returns:
  assumes "t \<noteq> []"
  shows "\<exists>r. highlight_loop content lc t idx hs = Some r"
proof (induction "case idx of None \<Rightarrow> 0 | Some i \<Rightarrow> Suc (length lc - i)" arbitrary: idx hs rule: less_induct)
  case less
  show ?case
  proof (cases idx)
    case None
    then show ?thesis by (simp add: highlight_loop.simps)
  next
    case (Some i)
    let ?hs = "hs @ [\<lparr>hl_start = i, hl_end = i + length t,
                      hl_text = substring content (int i) (int (i + length t))\<rparr>]"
    have "(case indexOf lc t (i + 1) of None \<Rightarrow> 0 | Some j \<Rightarrow> Suc (length lc - j))
            < Suc (length lc - i)"
      using indexOf_bounds[OF assms, of lc "i + 1"] by (auto split: option.splits)
    then have "\<exists>r. highlight_loop content lc t (indexOf lc t (i + 1)) ?hs = Some r"
      using less[of "indexOf lc t (i + 1)" ?hs] Some by simp
    then show ?thesis using Some by (subst highlight_loop.simps) simp
  qed
qed

lemma highlight_terms_returns:
  "[] \<notin> set ts \<Longrightarrow> \<exists>r. highlight_terms content lc ts hs = Some r"
proof (induction ts arbitrary: hs)
  case Nil
  then show ?case by simp
next
  case (Cons t ts)
  then have "t \<noteq> []" by auto
  from highlight_loop_returns[OF this] obtain r where
    "highlight_loop content lc t (indexOf lc t 0) hs = Some r" by blast
  then show ?case using Cons by simp
qed

lemma generateHighlights_returns:
  "[] \<notin> set (split_ws (toLowerCase query)) \<Longrightarrow> \<exists>r. generateHighlights query content = Some r"
  using highlight_terms_returns[of "split_ws (toLowerCase query)" content "toLowerCase content" "[]"]
  by (auto simp: generateHighlights_def Let_def)

lemma text_results_returns:
  assumes "[] \<notin> set (split_ws (toLowerCase (queryText query)))"
  shows "\<exists>r. text_results dm th now query rows = Some r"
proof (induction rows)
  case Nil
  then show ?case by simp
next
  case (Cons row rows)
  from generateHighlights_returns[OF assms] obtain hls where
    "generateHighlights (queryText query) (element_content row) = Some hls" by blast
  with Cons show ?case by (auto simp: Let_def split: sum.splits)
qed

lemma performTextSearch_returns:
  "[] \<notin> set (split_ws (toLowerCase (queryText query))) \<Longrightarrow>
    \<exists>r. performTextSearch config dm now query = Some r"
  using text_results_returns[of query]
  by (auto simp: performTextSearch_def Let_def split: sum.splits)

lemma dispatch_returns:
  assumes "[] \<notin> set (split_ws (toLowerCase (queryText query)))"
  shows "\<exists>r. dispatch env config dm query = Some r"
proof -
  from performTextSearch_returns[OF assms] obtain t where
    t: "performTextSearch config dm (clock_now env) query = Some t" by blast
  then have s: "\<exists>r. performSemanticSearch (provider env) config dm (clock_now env) query = Some r"
    by (auto simp: performSemanticSearch_def split: sum.splits)
  then have "\<exists>r. performHybridSearch (provider env) config dm (clock_now env) query = Some r"
    using t by (auto simp: performHybridSearch_def split: sum.splits)
  with t s show ?thesis by (auto simp: dispatch_def split: search_type.splits)
qed

lemma search_returns:
  assumes "[] \<notin> set (split_ws (toLowerCase (queryText query)))"
  shows "\<exists>out. search env config dm query = Some out"
  using dispatch_returns[OF assms, of env config dm]
  by (auto simp: search_def Let_def split: sum.splits prod.splits option.splits)

section \<open>\<open>LIKE\<close> and substrings\<close>





section \<open>Steps of \<open>indexFile\<close>\<close>

text \<open>
  The inserts of one \<open>indexFile\<close> run append a prefix of the new rows: all of them, or
  those before the first id that is already in the table.
\<close>

lemma make_row_sel [simp]:
  "filePath (make_row p h m t e) = p"
  "element_hash (make_row p h m t e) = h"
  "element_id (make_row p h m t e) = element_id e"
  by (simp_all add: make_row_def)

lemma store_elements_shape:
  "store_elements (Some db) rows c = (res, dm') \<Longrightarrow>
     \<exists>k. k \<le> length rows \<and> dm' = Some (db\<lparr>code_index := code_index db @ take k rows\<rparr>)
       \<and> (case res of
            Inr n \<Rightarrow> k = length rows \<and> n = c + length rows
          | Inl e \<Rightarrow> k < length rows \<and> e = ConstraintViolation (element_id (rows ! k)))"
proof (induction rows arbitrary: db c)
  case Nil
  then show ?case by auto
next
  case (Cons r rows)
  show ?case
  proof (cases "list_ex (\<lambda>row. element_id row = element_id r) (code_index db)")
    case True
    with Cons.prems have "res = Inl (ConstraintViolation (element_id r))" "dm' = Some db"
      by (auto simp: storeCodeElement_def getDatabase_def)
    then show ?thesis by (intro exI[of _ 0]) simp
  next
    case False
    let ?db1 = "db\<lparr>code_index := code_index db @ [r]\<rparr>"
    from False Cons.prems have "store_elements (Some ?db1) rows (c + 1) = (res, dm')"
      by (auto simp: storeCodeElement_def getDatabase_def)
    from Cons.IH[OF this] obtain k where k: "k \<le> length rows"
      "dm' = Some (?db1\<lparr>code_index := code_index ?db1 @ take k rows\<rparr>)"
      "(case res of Inr n \<Rightarrow> k = length rows \<and> n = c + 1 + length rows
                  | Inl e \<Rightarrow> k < length rows \<and> e = ConstraintViolation (element_id (rows ! k)))"
      by blast
    show ?thesis
      using k by (intro exI[of _ "Suc k"]) (auto split: sum.splits)
  qed
qed

lemma find_none_append:
  "\<forall>x \<in> set xs. \<not> P x \<Longrightarrow> find P (xs @ ys) = find P ys"
  by (induction xs) auto

lemma find_filter_other [simp]: "find (\<lambda>row. filePath row = p) (filter (\<lambda>row. filePath row \<noteq> p) xs) = None"
  by (induction xs) auto

lemma getExistingIndex_Some: "getExistingIndex (Some db) path = Inr (stored_hash db path)"
  by (simp add: getExistingIndex_def getDatabase_def stored_hash_def split: option.splits)

lemma indexFile_unsupported:
  "toLowerCase (extname path) \<notin> set supportedExtensions \<Longrightarrow> indexFile env dm path = (Inr 0, dm)"
  by (simp add: indexFile_def)

lemma indexFile_missing:
  "toLowerCase (extname path) \<in> set supportedExtensions \<Longrightarrow> file_system env path = None
     \<Longrightarrow> indexFile env dm path = (Inl (FileNotFound path), dm)"
  by (simp add: indexFile_def)

lemma indexFile_closed:
  "toLowerCase (extname path) \<in> set supportedExtensions \<Longrightarrow> file_system env path = Some f
     \<Longrightarrow> indexFile env None path = (Inl DatabaseNotInitialized, None)"
  by (simp add: indexFile_def getExistingIndex_def getDatabase_def)

lemma indexFile_unchanged:
  "toLowerCase (extname path) \<in> set supportedExtensions \<Longrightarrow> file_system env path = Some f
     \<Longrightarrow> stored_hash db path = Some (getFileHash env (file_content f))
     \<Longrightarrow> indexFile env (Some db) path = (Inr 0, Some db)"
  by (simp add: indexFile_def getExistingIndex_Some Let_def)

lemma indexFile_changed:
  "toLowerCase (extname path) \<in> set supportedExtensions \<Longrightarrow> file_system env path = Some f
     \<Longrightarrow> stored_hash db path \<noteq> Some (getFileHash env (file_content f))
     \<Longrightarrow> indexFile env (Some db) path =
           store_elements
             (Some (db\<lparr>code_index := filter (\<lambda>row. filePath row \<noteq> path) (code_index db)\<rparr>))
             (map (make_row path (getFileHash env (file_content f)) (mtime f div 1000)
                     (index_now env div 1000))
                (extractCodeElements env path (file_content f) (toLowerCase (extname path))))
             0"
  by (simp add: indexFile_def getExistingIndex_Some Let_def removeFileIndex_def getDatabase_def)

lemma stored_hash_removed:
  "stored_hash (db\<lparr>code_index := filter (\<lambda>row. filePath row \<noteq> path) (code_index db)\<rparr>) path = None"
  by (simp add: stored_hash_def)

lemma stored_hash_inserted:
  "stored_hash (db\<lparr>code_index := filter (\<lambda>row. filePath row \<noteq> path) (code_index db0)
                                   @ make_row path h m t e # others\<rparr>) path = Some h"
  by (simp add: stored_hash_def find_none_append)

lemma filter_path_rows:
  "filter (\<lambda>row. filePath row = path) (map (make_row path h m t) es) = map (make_row path h m t) es"
  "filter (\<lambda>row. filePath row \<noteq> path) (map (make_row path h m t) es) = []"
  by (induction es) auto

lemma indexFile_again:
  assumes content: "map_option file_content (file_system env2 path)
                      = map_option file_content (file_system env1 path)"
    and hash: "getFileHash env2 = getFileHash env1"
    and same_extract: "extractCodeElements env2 = extractCodeElements env1"
    and first: "indexFile env1 dm path = (res1, dm1)"
  shows "\<exists>res2. indexFile env2 dm1 path = (res2, dm1) \<and> (res2 = Inr 0 \<or> isl res2)
           \<and> (\<not> isl res1 \<longrightarrow> res2 = Inr 0)"
proof (cases "toLowerCase (extname path) \<in> set supportedExtensions")
  case False
  then show ?thesis using first by (auto simp: indexFile_unsupported)
next
  case supported: True
  show ?thesis
  proof (cases "file_system env1 path")
    case None
    then have "file_system env2 path = None" using content by simp
    then show ?thesis using first None supported by (auto simp: indexFile_missing)
  next
    case (Some f1)
    then obtain f2 where f2: "file_system env2 path = Some f2" "file_content f2 = file_content f1"
      using content by (cases "file_system env2 path") auto
    define h where "h = getFileHash env1 (file_content f1)"
    have h2: "getFileHash env2 (file_content f2) = h" using hash f2 h_def by simp
    define els where "els = extractCodeElements env1 path (file_content f1) (toLowerCase (extname path))"
    have els2: "extractCodeElements env2 path (file_content f2) (toLowerCase (extname path)) = els"
      using same_extract f2 els_def by simp
    show ?thesis
    proof (cases dm)
      case None
      then show ?thesis using first Some f2 supported by (auto simp: indexFile_closed)
    next
      case db: (Some db)
      show ?thesis
      proof (cases "stored_hash db path = Some h")
        case True
        then have "indexFile env1 (Some db) path = (Inr 0, Some db)"
          using indexFile_unchanged[OF supported Some] h_def by simp
        moreover have "indexFile env2 (Some db) path = (Inr 0, Some db)"
          using indexFile_unchanged[OF supported f2(1)] h2 True by simp
        ultimately show ?thesis using first db by simp
      next
        case changed: False
        let ?db1 = "db\<lparr>code_index := filter (\<lambda>row. filePath row \<noteq> path) (code_index db)\<rparr>"
        let ?mk1 = "make_row path h (mtime f1 div 1000) (index_now env1 div 1000)"
        let ?mk2 = "make_row path h (mtime f2 div 1000) (index_now env2 div 1000)"
        have run1: "store_elements (Some ?db1) (map ?mk1 els) 0 = (res1, dm1)"
          using indexFile_changed[OF supported Some] changed first db h_def els_def by simp
        have again: "indexFile env2 (Some ?db1) path = store_elements (Some ?db1) (map ?mk2 els) 0"
          using indexFile_changed[OF supported f2(1), where db = ?db1] stored_hash_removed[where db = db and path = path] h2 els2
          by simp
        show ?thesis
        proof (cases els)
          case Nil
          then show ?thesis using run1 again by auto
        next
          case (Cons e es)
          show ?thesis
          proof (cases "list_ex (\<lambda>row. element_id row = element_id e) (code_index ?db1)")
            case True
            then have "res1 = Inl (ConstraintViolation (element_id e))" "dm1 = Some ?db1"
              using run1 Cons by (auto simp: storeCodeElement_def getDatabase_def)
            moreover have "indexFile env2 (Some ?db1) path
                             = (Inl (ConstraintViolation (element_id e)), Some ?db1)"
              using again True Cons by (simp add: storeCodeElement_def getDatabase_def)
            ultimately show ?thesis by simp
          next
            case False
            let ?db2 = "?db1\<lparr>code_index := code_index ?db1 @ [?mk1 e]\<rparr>"
            have "store_elements (Some ?db2) (map ?mk1 es) 1 = (res1, dm1)"
              using run1 False Cons by (simp add: storeCodeElement_def getDatabase_def)
            from store_elements_shape[OF this] obtain k where
              dm1: "dm1 = Some (?db2\<lparr>code_index := code_index ?db2 @ take k (map ?mk1 es)\<rparr>)"
              by blast
            define db3 where "db3 = ?db2\<lparr>code_index := code_index ?db2 @ take k (map ?mk1 es)\<rparr>"
            have "db3 = db3\<lparr>code_index := filter (\<lambda>row. filePath row \<noteq> path) (code_index db)
                               @ ?mk1 e # take k (map ?mk1 es)\<rparr>"
              unfolding db3_def by simp
            then have "stored_hash db3 path = Some h"
              using stored_hash_inserted[where db = db3 and path = path and ?db0.0 = db and h = h and e = e] by metis
            then have "indexFile env2 (Some db3) path = (Inr 0, Some db3)"
              using indexFile_unchanged[OF supported f2(1)] h2 by simp
            then show ?thesis using dm1 db3_def by simp
          qed
        qed
      qed
    qed
  qed
qed

section \<open>The fixtures, evaluated\<close>

text \<open>
  What the engine and the indexer compute on the fixtures. The lexical search for
  \<open>add\<close> finds both functions: \<open>add\<close> by its name (score 1) and \<open>sum\<close> by its
  content alone (score 0.6).
\<close>

lemma search_eval:
  assumes "dispatch env config dm query = Some (Inr found)"
    and "fst (storeSearchQuery dm query (rank_results config query found)
                (clock_elapsed env) (clock_now env)) = None"
  shows "map_option fst (search env config dm query) = Some (Inr (rank_results config query found))"
  using assms
  by (cases "storeSearchQuery dm query (rank_results config query found) (clock_elapsed env) (clock_now env)")
     (simp add: search_def)

lemma project_results:
  "map_option fst out = Some (Inr rs) \<Longrightarrow>
     map_option (map_sum id (map f) \<circ> fst) out = Some (Inr (map f rs))"
  by (cases out) auto

lemma text_search_math:
  "performTextSearch default_config (Some db_math) 1700 query_add = Some (Inr [add_result, sum_result])"
  by code_simp

lemma query_add_sel:
  "searchType query_add = TextSearch" "filters query_add = None" "query_id query_add = ''q1''"
  "queryText query_add = ''add''"
  by (simp_all add: query_add_def)

lemma env_mock_sel: "clock_now env_mock = 1700" "clock_elapsed env_mock = 3"
  by (simp_all add: env_mock_def)

lemma dispatch_math:
  "dispatch env_mock default_config (Some db_math) query_add = Some (Inr [add_result, sum_result])"
  by (simp add: dispatch_def query_add_sel env_mock_sel text_search_math)

lemma dispatch_text_any:
  "clock_now env = 1700 \<Longrightarrow> searchType q = TextSearch \<Longrightarrow> queryText q = ''add''
     \<Longrightarrow> query_id q = ''q1'' \<Longrightarrow> query_fileTypes q = None \<Longrightarrow>
   dispatch env default_config (Some db_math) q = Some (Inr [add_result, sum_result])"
  using performTextSearch_cong_filters[of q query_add default_config "Some db_math" 1700]
  by (simp add: dispatch_def text_search_math query_add_sel query_fileTypes_def)

lemma rank_math:
  "rank_results default_config query_add [add_result, sum_result] = [add_result, sum_result]"
  by code_simp

lemma store_math:
  "fst (storeSearchQuery (Some db_math) query_add [add_result, sum_result] 3 1700) = None"
  by code_simp

lemma search_math:
  "map_option fst (search env_mock default_config (Some db_math) query_add) = Some (Inr [add_result, sum_result])"
  using search_eval[OF dispatch_math] store_math by (simp add: rank_math env_mock_sel)


lemma math_ts_supported: "toLowerCase (extname ''/src/math.ts'') \<in> set supportedExtensions"
  by code_simp

lemma index_collision:
  "indexFile env_new (Some db_old) ''/src/math.ts''
     = (Inl (ConstraintViolation ''function:sum:2''),
        Some (db_old\<lparr>code_index := [util_row, make_row ''/src/math.ts'' ''h-new'' 5 7 add_element]\<rparr>))"
  by code_simp

lemma first_index:
  "service_indexFile env_new (Some empty_db) ''/src/math.ts''
     = (\<lparr>success = True, elementsIndexed = 2, errors = [], duration = 1\<rparr>, Some db_math)"
  by code_simp

section \<open>Hybrid merge\<close>


section \<open>Order and rank\<close>

text \<open>
  C2. The list \<open>search\<close> returns should be in descending order of score with the
  \<open>rank\<close> of each result equal to its position. The results are built with
  \<open>rank: 0\<close>, to be \<open>set after sorting\<close>, and \<open>search\<close> sorts and truncates them
  without ever assigning it: of the two results for \<open>add\<close> the second, at position 1, is
  returned with rank 0 like the first.
\<close>

theorem search_leaves_rank_zero:
  "map_option (map_sum id (map elementId) \<circ> fst)
     (search env_mock default_config (Some db_math) query_add)
   = Some (Inr [''function:add:1'', ''function:sum:2''])
   \<and> map_option (map_sum id (map rank) \<circ> fst)
       (search env_mock default_config (Some db_math) query_add)
     = Some (Inr [0, 0])"
  using project_results[OF search_math, of elementId] project_results[OF search_math, of rank]
  by (simp add: add_result_def sum_result_def)

section \<open>Replacing the rows of a file\<close>

text \<open>
  C3, as amended. When \<open>indexFile\<close> runs on a file with a supported extension whose
  hash differs from the stored one, over an open database, the rows of every other path
  stay as they were, no old row of the path is left, and the rows of the path are the
  first \<open>k\<close> rows of the new set in order: all of them when the call returns their
  number, fewer than all when an insert has thrown. The delete and the inserts are
  separate statements with no transaction around them.
\<close>

theorem indexFile_replacement_keeps_prefix:
  assumes "toLowerCase (extname path) \<in> set supportedExtensions"
    and "file_system env path = Some file"
    and "getExistingIndex (Some db) path = Inr existing"
    and "existing \<noteq> Some (getFileHash env (file_content file))"
    and "indexFile env (Some db) path = (res, dm')"
  shows "\<exists>k db'. dm' = Some db'
           \<and> filter (\<lambda>row. filePath row \<noteq> path) (code_index db')
               = filter (\<lambda>row. filePath row \<noteq> path) (code_index db)
           \<and> filter (\<lambda>row. filePath row = path) (code_index db')
               = take k (map (make_row path (getFileHash env (file_content file))
                                (mtime file div 1000) (index_now env div 1000))
                           (extractCodeElements env path (file_content file)
                              (toLowerCase (extname path))))
           \<and> (case res of
                 Inr n \<Rightarrow> n = length (extractCodeElements env path (file_content file)
                                        (toLowerCase (extname path)))
                          \<and> k = n
               | Inl e \<Rightarrow> k < length (extractCodeElements env path (file_content file)
                                        (toLowerCase (extname path))))"
proof -
  let ?rows = "map (make_row path (getFileHash env (file_content file))
                      (mtime file div 1000) (index_now env div 1000))
                 (extractCodeElements env path (file_content file) (toLowerCase (extname path)))"
  let ?db1 = "db\<lparr>code_index := filter (\<lambda>row. filePath row \<noteq> path) (code_index db)\<rparr>"
  have "stored_hash db path \<noteq> Some (getFileHash env (file_content file))"
    using assms(3,4) by (simp add: getExistingIndex_Some)
  then have "store_elements (Some ?db1) ?rows 0 = (res, dm')"
    using indexFile_changed[OF assms(1,2)] assms(5) by simp
  from store_elements_shape[OF this] obtain k where k: "k \<le> length ?rows"
    "dm' = Some (?db1\<lparr>code_index := code_index ?db1 @ take k ?rows\<rparr>)"
    "(case res of Inr n \<Rightarrow> k = length ?rows \<and> n = 0 + length ?rows
                | Inl e \<Rightarrow> k < length ?rows \<and> e = ConstraintViolation (element_id (?rows ! k)))"
    by blast
  let ?db' = "?db1\<lparr>code_index := code_index ?db1 @ take k ?rows\<rparr>"
  have keep: "filter (\<lambda>row. filePath row \<noteq> path) (code_index ?db')
          = filter (\<lambda>row. filePath row \<noteq> path) (code_index db)"
    by (simp add: take_map filter_path_rows)
  have new: "filter (\<lambda>row. filePath row = path) (code_index ?db') = take k ?rows"
    by (simp add: take_map filter_path_rows)
  have "case res of Inr n \<Rightarrow> n = length (extractCodeElements env path (file_content file)
                                        (toLowerCase (extname path))) \<and> k = n
               | Inl e \<Rightarrow> k < length (extractCodeElements env path (file_content file)
                                        (toLowerCase (extname path)))"
    using k(3) by (auto split: sum.splits)
  with k(2) keep new show ?thesis by blast
qed

text \<open>
  The amended C3 on the fixture: \<open>/src/math.ts\<close> is replaced while \<open>/src/util.ts\<close>
  holds the id \<open>function:sum:2\<close>; the second insert throws and \<open>k = 1\<close>.
\<close>

theorem indexFile_replacement_keeps_prefix_witness:
  "getExistingIndex (Some db_old) ''/src/math.ts'' = Inr (Some ''h-old'')
   \<and> getFileHash env_new new_source = ''h-new''
   \<and> indexFile env_new (Some db_old) ''/src/math.ts''
       = (Inl (ConstraintViolation ''function:sum:2''),
          Some (db_old\<lparr>code_index := [util_row, make_row ''/src/math.ts'' ''h-new'' 5 7 add_element]\<rparr>))
   \<and> [make_row ''/src/math.ts'' ''h-new'' 5 7 add_element]
       = take 1 (map (make_row ''/src/math.ts'' ''h-new'' 5 7)
                   (extractCodeElements env_new ''/src/math.ts'' new_source ''.ts''))"
proof -
  have f: "file_system env_new ''/src/math.ts'' = Some \<lparr>file_content = new_source, mtime = 5000\<rparr>"
    by (simp add: env_new_def)
  have e: "getExistingIndex (Some db_old) ''/src/math.ts'' = Inr (Some ''h-old'')"
    by code_simp
  have g: "getFileHash env_new new_source = ''h-new''"
    by (simp add: env_new_def fixture_hash_def)
  have h: "Some ''h-old'' \<noteq> Some (getFileHash env_new (file_content \<lparr>file_content = new_source, mtime = 5000\<rparr>))"
    by (simp add: g)
  have x: "extractCodeElements env_new ''/src/math.ts'' new_source ''.ts'' = [add_element, sum_element]"
    by (simp add: env_new_def fixture_extract_def)
  from indexFile_replacement_keeps_prefix[OF math_ts_supported f e h index_collision]
  show ?thesis
    using index_collision e g by (simp add: x)
qed

text \<open>
  C3 as stated fails there: after the failed write the store holds, for the path,
  neither its old set (\<open>sub\<close>) nor the complete new set (\<open>add\<close> and \<open>sum\<close>), but
  \<open>add\<close> alone.
\<close>

theorem failed_insert_leaves_part_of_the_new_set:
  "indexFile env_new (Some db_old) ''/src/math.ts''
     = (Inl (ConstraintViolation ''function:sum:2''),
        Some (db_old\<lparr>code_index := [util_row, make_row ''/src/math.ts'' ''h-new'' 5 7 add_element]\<rparr>))
   \<and> code_index db_old = [make_row ''/src/math.ts'' ''h-old'' 1 2 sub_element, util_row]
   \<and> filePath util_row = ''/src/util.ts''
   \<and> map (make_row ''/src/math.ts'' ''h-new'' 5 7)
         (extractCodeElements env_new ''/src/math.ts'' new_source ''.ts'')
       = [make_row ''/src/math.ts'' ''h-new'' 5 7 add_element,
          make_row ''/src/math.ts'' ''h-new'' 5 7 sum_element]
   \<and> [make_row ''/src/math.ts'' ''h-new'' 5 7 add_element]
       \<noteq> [make_row ''/src/math.ts'' ''h-old'' 1 2 sub_element]
   \<and> [make_row ''/src/math.ts'' ''h-new'' 5 7 add_element]
       \<noteq> [make_row ''/src/math.ts'' ''h-new'' 5 7 add_element,
          make_row ''/src/math.ts'' ''h-new'' 5 7 sum_element]"
  by code_simp

section \<open>A file that is gone\<close>




section \<open>Candidates of the lexical search\<close>




section \<open>Semantic search without a provider\<close>



section \<open>Indexing an unchanged file again\<close>

text \<open>
  C7. Let \<open>indexFile\<close> be called for a path, and then once more with the content of
  the file as it was (the modification time and the clock may differ). The second call
  reports \<open>elementsIndexed = 0\<close> and leaves the store exactly as the first call left
  it, and it succeeds if the first call did.
\<close>

theorem indexFile_twice_unchanged_content:
  assumes "map_option file_content (file_system env2 path)
             = map_option file_content (file_system env1 path)"
    and "getFileHash env2 = getFileHash env1"
    and "extractCodeElements env2 = extractCodeElements env1"
  shows "elementsIndexed (fst (service_indexFile env2 (snd (service_indexFile env1 dm path)) path)) = 0
       \<and> snd (service_indexFile env2 (snd (service_indexFile env1 dm path)) path)
           = snd (service_indexFile env1 dm path)
       \<and> (success (fst (service_indexFile env1 dm path))
            \<longrightarrow> success (fst (service_indexFile env2 (snd (service_indexFile env1 dm path)) path)))"
proof -
  obtain res1 dm1 where first: "indexFile env1 dm path = (res1, dm1)" by (cases "indexFile env1 dm path")
  from indexFile_again[OF assms first] obtain res2 where
    second: "indexFile env2 dm1 path = (res2, dm1)" and
    zero: "res2 = Inr 0 \<or> isl res2" and ok: "\<not> isl res1 \<longrightarrow> res2 = Inr 0"
    by blast
  have s1: "snd (service_indexFile env1 dm path) = dm1" "success (fst (service_indexFile env1 dm path)) = (\<not> isl res1)"
    using first by (auto simp: service_indexFile_def split: sum.splits)
  show ?thesis
    using second zero ok unfolding s1 by (auto simp: service_indexFile_def split: sum.splits)
qed

text \<open>
  C7 on the fixture: the first call indexes two elements, the second, after the file
  is touched, indexes none and changes nothing.
\<close>

theorem indexFile_twice_unchanged_content_witness:
  "service_indexFile env_new (Some empty_db) ''/src/math.ts''
     = (\<lparr>success = True, elementsIndexed = 2, errors = [], duration = 1\<rparr>, Some db_math)
   \<and> elementsIndexed (fst (service_indexFile env_touched (Some db_math) ''/src/math.ts'')) = 0
   \<and> success (fst (service_indexFile env_touched (Some db_math) ''/src/math.ts''))
   \<and> snd (service_indexFile env_touched (Some db_math) ''/src/math.ts'') = Some db_math"
proof -
  have c: "map_option file_content (file_system env_touched ''/src/math.ts'')
             = map_option file_content (file_system env_new ''/src/math.ts'')"
    by (simp add: env_touched_def env_new_def)
  have h: "getFileHash env_touched = getFileHash env_new"
    by (simp add: env_touched_def env_new_def)
  have x: "extractCodeElements env_touched = extractCodeElements env_new"
    by (simp add: env_touched_def env_new_def)
  from indexFile_twice_unchanged_content[OF c h x, of "Some empty_db"]
  show ?thesis by (simp add: first_index)
qed

section \<open>The element type filter\<close>

text \<open>
  C8, as amended. The element type allow-list of a query is accepted and not enforced:
  \<open>applyFilters\<close> skips it, and \<open>search\<close> returns the same outcome whatever the list
  is, as if the query had none.
\<close>

theorem elementTypes_filter_is_ignored:
  "map_option fst (search env config dm (query\<lparr>filters := Some (f\<lparr>elementTypes := allowed\<rparr>)\<rparr>))
     = map_option fst (search env config dm (query\<lparr>filters := Some (f\<lparr>elementTypes := None\<rparr>)\<rparr>))"
proof -
  let ?q1 = "query\<lparr>filters := Some (f\<lparr>elementTypes := allowed\<rparr>)\<rparr>"
  let ?q2 = "query\<lparr>filters := Some (f\<lparr>elementTypes := None\<rparr>)\<rparr>"
  have t: "performTextSearch config dm now ?q1 = performTextSearch config dm now ?q2" for now
    by (rule performTextSearch_cong_filters) (simp_all add: query_fileTypes_def)
  have s: "performSemanticSearch p config dm now ?q1 = performSemanticSearch p config dm now ?q2" for p now
    using semantic_results_cong[of ?q1 ?q2]
    by (auto simp: performSemanticSearch_def semantic_try_def t split: sum.splits)
  have h: "performHybridSearch p config dm now ?q1 = performHybridSearch p config dm now ?q2" for p now
    by (auto simp: performHybridSearch_def t s split: option.splits sum.splits)
  have "dispatch env config dm ?q1 = dispatch env config dm ?q2"
    by (auto simp: dispatch_def t s h split: search_type.splits)
  then show ?thesis
    by (rule search_outcome_cong) (simp_all add: rank_results_def applyFilters_def)
qed

text \<open>
  C8 as stated fails on the fixture: with the allow-list \<open>class\<close>, the search for
  \<open>add\<close> returns the two elements, both of type \<open>function\<close>.
\<close>

theorem elementTypes_allow_list_not_enforced:
  "map_option (map_sum id (map elementId) \<circ> fst)
     (search env_mock default_config (Some db_math) (query_add\<lparr>filters := Some class_filter\<rparr>))
   = Some (Inr [''function:add:1'', ''function:sum:2''])
   \<and> elementTypes class_filter = Some [''class'']
   \<and> map element_id (code_index db_math) = [''function:add:1'', ''function:sum:2'']
   \<and> map element_type (code_index db_math) = [''function'', ''function'']"
proof -
  let ?q = "query_add\<lparr>filters := Some class_filter\<rparr>"
  have d: "dispatch env_mock default_config (Some db_math) ?q = Some (Inr [add_result, sum_result])"
    by (rule dispatch_text_any)
       (simp_all add: env_mock_sel query_add_sel query_fileTypes_def class_filter_def)
  have r: "rank_results default_config ?q [add_result, sum_result] = [add_result, sum_result]"
    by code_simp
  have s: "fst (storeSearchQuery (Some db_math) ?q [add_result, sum_result] 3 1700) = None"
    by code_simp
  have out: "map_option fst (search env_mock default_config (Some db_math) ?q)
          = Some (Inr [add_result, sum_result])"
    using search_eval[OF d] s by (simp add: r env_mock_sel)
  have "map_option (map_sum id (map elementId) \<circ> fst)
          (search env_mock default_config (Some db_math) ?q)
        = Some (Inr [''function:add:1'', ''function:sum:2''])"
    using project_results[OF out, of elementId] by (simp add: add_result_def sum_result_def)
  moreover have "elementTypes class_filter = Some [''class'']"
    by (simp add: class_filter_def)
  moreover have "map element_id (code_index db_math) = [''function:add:1'', ''function:sum:2'']"
    by (simp add: db_math_def make_row_def add_element_def sum_element_def)
  moreover have "map element_type (code_index db_math) = [''function'', ''function'']"
    by (simp add: db_math_def make_row_def add_element_def sum_element_def)
  ultimately show ?thesis by simp
qed

section \<open>The score threshold\<close>

text \<open>
  C9. Every result that \<open>search\<close> returns, under any strategy, has a score of at least
  the threshold of the engine, which is the configured \<open>minScore\<close>, or 0.3 when none
  or zero is configured; so it is at least the configured value, or 0.3 when none is.
\<close>

theorem search_scores_at_least_minScore:
  assumes "map_option fst (search env config dm query) = Some (Inr results)" and "r \<in> set results"
  shows "minScore config \<le> relevanceScore r
         \<and> (case config_minScore config of None \<Rightarrow> 0.3 | Some m \<Rightarrow> m) \<le> relevanceScore r"
proof -
  from search_results_from_dispatch[OF assms(1)] obtain found where
    d: "dispatch env config dm query = Some (Inr found)" and rs: "results = rank_results config query found"
    by blast
  from assms(2) rs rank_results_subset have "r \<in> set found" by blast
  with d have 1: "minScore config \<le> relevanceScore r" by (rule dispatch_scores)
  have "(case config_minScore config of None \<Rightarrow> 0.3 | Some m \<Rightarrow> m) \<le> minScore config"
    by (simp add: minScore_def split: option.splits)
  with 1 show ?thesis by simp
qed

text \<open>C9 on the fixture: the weaker of the two results has the score 0.6.\<close>

theorem search_scores_at_least_minScore_witness:
  "map_option fst (search env_mock default_config (Some db_math) query_add)
     = Some (Inr [add_result, sum_result])
   \<and> minScore default_config \<le> relevanceScore sum_result
   \<and> relevanceScore sum_result = 3 / 5"
  using search_scores_at_least_minScore[OF search_math, of sum_result] search_math
  by (simp add: sum_result_def)

section \<open>Highlight spans\<close>

text \<open>
  C10. Every highlight span \<open>(start, end, text)\<close> of a lexical result should carry the
  piece of the content from \<open>start\<close> to \<open>end\<close> as its text, merged spans included.
  \<open>mergeHighlights\<close> moves \<open>current.end\<close> before it cuts \<open>next.text\<close>, so the cut
  starts at the end of \<open>next.text\<close> and a merged span keeps the text of its first part:
  for the query \<open>abc bcd\<close> on the content \<open>abcd\<close> the spans \<open>(0, 3)\<close> and \<open>(1, 4)\<close>
  merge into \<open>(0, 4)\<close> with the text \<open>abc\<close>, where the content from 0 to 4 is
  \<open>abcd\<close>.
\<close>

theorem merged_highlight_text_is_not_the_span:
  "generateHighlights ''abc bcd'' ''abcd''
     = Some [\<lparr>hl_start = 0, hl_end = 4, hl_text = ''abc''\<rparr>]
   \<and> substring ''abcd'' 0 4 = ''abcd''"
  by code_simp

end
